theory Spec2Isabelle
  imports Main
begin

section \<open>ERC-20 bridge coordination (src/page/CrossChain/erc20/token.js)\<close>

text \<open>
  The module is asynchronous JavaScript whose every step is a call to a collaborator:
  a chain client, the wallet, the indexer, the proof generator, the console. The model
  makes those calls explicit. A collaborator is a field of the record \<open>env\<close>; a call that
  may throw or reject returns \<open>error + 'a\<close>; every call that leaves the process is
  recorded, in program order, as an \<open>event\<close>. A source function becomes a function from
  the environment and its arguments to its result together with the events it caused.
\<close>

subsection \<open>Data\<close>

datatype error =
    Error string      \<comment> \<open>\<open>new Error(message)\<close>, and any rejection of a collaborator\<close>
  | RangeError        \<comment> \<open>\<open>new Array(n)\<close> with an invalid length\<close>

text \<open>\<open>backingContract.methods.assets(address).call()\<close>: \<open>target\<close> is a hex string,
  \<open>timestamp\<close> the decimal rendering of an unsigned integer, which \<open>+timestamp\<close> reads
  back as that number.\<close>

record RegistrationRecord =
  target :: string
  timestamp :: nat

text \<open>The indexer's response body; the code reads \<open>block_hash\<close> only.\<close>

record IndexerRecord =
  block_hash :: string
  block_num :: nat
  mmr_index :: nat
  mmr_root :: string

record Token =
  address :: string
  symbol :: string
  decimals :: nat
  name :: "string option"
  logo :: "string option"
  balance :: nat

text \<open>\<open>{ ...info, ...token }\<close> in \<open>getAllTokensDvm\<close>.\<close>

record DvmToken = Token +
  source :: string
  backing :: string

type_synonym mpt_proof = string

datatype subscription = Subscription string

text \<open>What \<open>contract.methods.m(args)\<close> gives: the method's name and its arguments.
  Nothing reaches a chain until \<open>.call()\<close> or \<open>.send()\<close> is applied to it.\<close>

datatype tx_object = TxObject string "string list"

datatype event =
    ConsoleWarn string
  | ConsoleLog string
  | Call_assets string
  | Call_symbol string
  | Call_getSymbolAndDecimals string
  | Call_getMetamaskActiveAccount
  | Send tx_object string       \<comment> \<open>\<open>.send({ from })\<close> of a method applied to its arguments\<close>
  | IndexerGet string
  | Delay nat
  | Call_getMPTProof string string
  | Call_isNetworkMatch nat
  | Call_tokenLength
  | Call_allTokens nat
  | Call_tokenToInfo string
  | Call_assetLength
  | Call_allAssets nat
  | Call_tokenInfoGetter string
  | Call_getTokenBalance string string
  | Next nat mpt_proof          \<comment> \<open>the subject hands a proof to subscriber \<open>n\<close>\<close>
  | ErrorTo nat error           \<comment> \<open>the subject hands an error to subscriber \<open>n\<close>\<close>
  | CompleteTo nat              \<comment> \<open>the subject tells subscriber \<open>n\<close> the stream is over\<close>

text \<open>The collaborators. \<open>indexer a k\<close> is the body the indexer answers to the
  \<open>k\<close>-th query (counted from 0) for source address \<open>a\<close>; \<open>None\<close> is the null body.
  \<open>symbol_call a\<close> is \<open>new web3.eth.Contract(Erc20StringABI, a).methods.symbol().call()\<close>.\<close>

record env =
  isAddress :: "string \<Rightarrow> bool"
  hexToNumber :: "string \<Rightarrow> error + int"
  assets :: "string \<Rightarrow> error + RegistrationRecord"
  getMetamaskActiveAccount :: "error + string"
  symbol_call :: "string \<Rightarrow> error + string"
  getSymbolAndDecimals :: "string \<Rightarrow> error + (string \<times> nat)"
  send :: "tx_object \<Rightarrow> string \<Rightarrow> error + string"
  indexer :: "string \<Rightarrow> nat \<Rightarrow> error + IndexerRecord option"
  getMPTProof :: "string \<Rightarrow> string \<Rightarrow> error + mpt_proof"
  DVM_NETWORK_ID :: nat
  isNetworkMatch :: "nat \<Rightarrow> error + bool"
  tokenLength :: "error + nat"
  allTokens :: "nat \<Rightarrow> error + string"
  tokenToInfo :: "string \<Rightarrow> error + (string \<times> string)"
  assetLength :: "error + nat"
  allAssets :: "nat \<Rightarrow> error + string"
  tokenInfoGetter :: "string \<Rightarrow> error + (string option \<times> nat option)"
  getNameAndLogo :: "string \<Rightarrow> error + (string option \<times> string option)"
  getTokenBalance :: "string \<Rightarrow> string \<Rightarrow> error + nat"

subsection \<open>Results with a trace\<close>

type_synonym 'a eff = "(error + 'a) \<times> event list"

definition call :: "event \<Rightarrow> error + 'a \<Rightarrow> 'a eff" where
  "call ev r = (r, [ev])"

text \<open>\<open>await\<close> in sequence: a rejection ends the function with the events so far.\<close>

definition bind_eff :: "'a eff \<Rightarrow> ('a \<Rightarrow> 'b eff) \<Rightarrow> 'b eff" where
  "bind_eff m f =
     (case m of
        (Inl e, t) \<Rightarrow> (Inl e, t)
      | (Inr x, t) \<Rightarrow> (case f x of (r, t') \<Rightarrow> (r, t @ t')))"

subsection \<open>Registration status\<close>

definition invalid_address_warning :: "string \<Rightarrow> string" where
  "invalid_address_warning a =
     ''Token address is invalid, except an ERC20 token address. Received value: '' @ a"

text \<open>\<open>getTokenRegisterStatus\<close>. The result \<open>None\<close> is JavaScript's \<open>undefined\<close> (the bare
  \<open>return\<close>); \<open>!address\<close> holds of the empty string; \<open>!!n\<close> of a number is \<open>n \<noteq> 0\<close>.\<close>

definition getTokenRegisterStatus :: "env \<Rightarrow> string \<Rightarrow> nat option eff" where
  "getTokenRegisterStatus en a =
     (if a = [] \<or> \<not> isAddress en a then
        (Inr None, [ConsoleWarn (invalid_address_warning a)])
      else
        bind_eff (call (Call_assets a) (assets en a)) (\<lambda>r.
          case hexToNumber en (target r) of
            Inl e \<Rightarrow> (Inl e, [])
          | Inr n \<Rightarrow>
              (let isTargetTruthy = (n \<noteq> 0);
                   isTimestampExist = (0 < timestamp r)
               in if isTimestampExist \<and> \<not> isTargetTruthy then (Inr (Some 2), [])
                  else if isTimestampExist \<and> isTargetTruthy then (Inr (Some 1), [])
                  else (Inr (Some 0), []))))"

text \<open>\<open>!!status\<close>: \<open>undefined\<close> and \<open>0\<close> are falsy, every other number is truthy.\<close>

definition truthy :: "nat option \<Rightarrow> bool" where
  "truthy v = (case v of None \<Rightarrow> False | Some n \<Rightarrow> n \<noteq> 0)"

definition hasRegistered :: "env \<Rightarrow> string \<Rightarrow> bool eff" where
  "hasRegistered en a =
     bind_eff (getTokenRegisterStatus en a) (\<lambda>status. (Inr (truthy status), []))"

text \<open>The specification's side: the three states, their numbers in the source's
  documentation comment (\<open>0: unregister 1: registered 2: registering\<close>), and the decision
  table of the specification, row by row, over the timestamp and the numeric value of
  the target.\<close>

datatype RegistrationStatus = Unregistered | Registering | Registered

fun status_code :: "RegistrationStatus \<Rightarrow> nat" where
  "status_code Unregistered = 0"
| "status_code Registered = 1"
| "status_code Registering = 2"

definition decision_table :: "nat \<Rightarrow> int \<Rightarrow> RegistrationStatus" where
  "decision_table ts tgt =
     (if ts = 0 then Unregistered
      else if tgt = 0 then Registering
      else Registered)"

subsection \<open>The symbol probe\<close>

text \<open>\<open>getSymbolType\<close>: the \<open>catch\<close> drops the error of the string-typed call.\<close>

definition getSymbolType :: "env \<Rightarrow> string \<Rightarrow> (string \<times> bool) eff" where
  "getSymbolType en a =
     (case symbol_call en a of
        Inr sy \<Rightarrow> (Inr (sy, True), [Call_symbol a])
      | Inl err \<Rightarrow>
          (case bind_eff (call (Call_getSymbolAndDecimals a) (getSymbolAndDecimals en a))
                  (\<lambda>(sy, dc). (Inr (sy, False), [])) of
             (r, t) \<Rightarrow> (r, Call_symbol a # t)))"

subsection \<open>The proof subject\<close>

text \<open>\<open>proofSubject = new Subject()\<close>, one for the module. The operators of the stream
  library are not part of this repository; they are modelled from the library's
  documented behaviour. A subject hands each value to the observers subscribed at that
  moment; \<open>error\<close> and \<open>complete\<close> stop it and drop its observers; a stopped subject
  ignores \<open>next\<close>; an observer that subscribes to a stopped subject is told the error, or
  that the stream is over, and is not kept.\<close>

record subject =
  isStopped :: bool
  thrownError :: "error option"
  observers :: "nat list"

definition new_Subject :: subject where
  "new_Subject = \<lparr>isStopped = False, thrownError = None, observers = []\<rparr>"

definition subject_next :: "subject \<Rightarrow> mpt_proof \<Rightarrow> event list \<times> subject" where
  "subject_next s v =
     (if isStopped s then ([], s) else (map (\<lambda>n. Next n v) (observers s), s))"

definition subject_error :: "subject \<Rightarrow> error \<Rightarrow> event list \<times> subject" where
  "subject_error s e =
     (map (\<lambda>n. ErrorTo n e) (observers s),
      s\<lparr>isStopped := True, thrownError := Some e, observers := []\<rparr>)"

definition subject_complete :: "subject \<Rightarrow> event list \<times> subject" where
  "subject_complete s =
     (map CompleteTo (observers s), s\<lparr>isStopped := True, observers := []\<rparr>)"

definition subject_subscribe :: "subject \<Rightarrow> nat \<Rightarrow> event list \<times> subject" where
  "subject_subscribe s n =
     (case thrownError s of
        Some e \<Rightarrow> ([ErrorTo n e], s)
      | None \<Rightarrow>
          if isStopped s then ([CompleteTo n], s)
          else ([], s\<lparr>observers := observers s @ [n]\<rparr>))"

subsection \<open>Proof monitoring\<close>

definition proofAddress :: string where
  "proofAddress = ''0xe66f3de22eed97c730152f373193b5a0485b407d88f37d5fd6a2c59e5a696691''"

text \<open>The \<open>map\<close> stage over what the promise \<open>api\<close> settled to: a rejection stays an
  error, a falsy body is thrown as an error, a record passes.\<close>

definition map_data :: "error + IndexerRecord option \<Rightarrow> error + IndexerRecord" where
  "map_data api =
     (case api of
        Inl e \<Rightarrow> Inl e
      | Inr None \<Rightarrow> Inl (Error ''Unreceived register block info'')
      | Inr (Some d) \<Rightarrow> Inr d)"

text \<open>\<open>from(api).pipe(map(...), retryWhen((error) => error.pipe(delay(3000))))\<close>.
  \<open>api\<close> is one promise, made before the pipeline by the single call of \<open>axios.get\<close>;
  each retry subscribes again to \<open>from(api)\<close>, that is to the same settled promise.
  The loop need not end, so it runs on fuel, one unit for each subscription to the
  source: \<open>None\<close> says the fuel ran out with the pipeline still retrying.\<close>

fun retryWhen :: "nat \<Rightarrow> error + IndexerRecord option \<Rightarrow> IndexerRecord option \<times> event list" where
  "retryWhen 0 api = (None, [])"
| "retryWhen (Suc fuel) api =
     (case map_data api of
        Inr d \<Rightarrow> (Some d, [])
      | Inl e \<Rightarrow> (case retryWhen fuel api of (r, t) \<Rightarrow> (r, Delay 3000 # t)))"

text \<open>\<open>switchMap(({ block_hash }) => from(getMPTProof(block_hash, proofAddress)))\<close>
  subscribed by \<open>proofSubject\<close>: the proof goes to the subject's \<open>next\<close> and the end of
  the stream to its \<open>complete\<close>; a failure of the proof fetch goes to its \<open>error\<close>.\<close>

definition switchMap :: "env \<Rightarrow> IndexerRecord \<Rightarrow> subject \<Rightarrow> event list \<times> subject" where
  "switchMap en d s =
     (case getMPTProof en (block_hash d) proofAddress of
        Inl e \<Rightarrow>
          (case subject_error s e of
             (t, s') \<Rightarrow> (Call_getMPTProof (block_hash d) proofAddress # t, s'))
      | Inr p \<Rightarrow>
          (case subject_next s p of
             (t1, s1) \<Rightarrow>
               (case subject_complete s1 of
                  (t2, s2) \<Rightarrow> (Call_getMPTProof (block_hash d) proofAddress # t1 @ t2, s2))))"

text \<open>\<open>monitorEventProof\<close>, called when \<open>k\<close> queries for the address have been made
  before. It returns the subscription at once; the events are those of the whole
  pipeline, in the order they happen.\<close>

definition monitorEventProof ::
  "nat \<Rightarrow> env \<Rightarrow> nat \<Rightarrow> string \<Rightarrow> subject \<Rightarrow> subscription \<times> event list \<times> subject" where
  "monitorEventProof fuel en k a s =
     (let api = indexer en a k in
      case retryWhen fuel api of
        (None, t) \<Rightarrow> (Subscription a, IndexerGet a # t, s)
      | (Some d, t) \<Rightarrow>
          (case switchMap en d s of
             (t', s') \<Rightarrow> (Subscription a, IndexerGet a # t @ t', s')))"

text \<open>Any later use of the module's subject: more addresses monitored, in any
  environment, and more subscribers.\<close>

datatype action = Monitor nat env nat string | Subscribe nat

fun run_actions :: "action list \<Rightarrow> subject \<Rightarrow> event list \<times> subject" where
  "run_actions [] s = ([], s)"
| "run_actions (Monitor fuel en k a # acts) s =
     (case monitorEventProof fuel en k a s of
        (sub, t, s') \<Rightarrow> (case run_actions acts s' of (t', s'') \<Rightarrow> (t @ t', s'')))"
| "run_actions (Subscribe n # acts) s =
     (case subject_subscribe s n of
        (t, s') \<Rightarrow> (case run_actions acts s' of (t', s'') \<Rightarrow> (t @ t', s'')))"

fun is_proof_event :: "event \<Rightarrow> bool" where
  "is_proof_event (Next n p) = True"
| "is_proof_event ev = False"

fun is_query :: "event \<Rightarrow> bool" where
  "is_query (IndexerGet a) = True"
| "is_query ev = False"

subsection \<open>Registration\<close>

text \<open>\<open>registerToken\<close>: \<open>None\<close> is the \<open>undefined\<close> of the branch that does nothing.\<close>

definition registerToken ::
  "nat \<Rightarrow> env \<Rightarrow> nat \<Rightarrow> string \<Rightarrow> subject
     \<Rightarrow> (error + subscription option) \<times> event list \<times> subject" where
  "registerToken fuel en k a s =
     (case hasRegistered en a of
        (Inl e, t) \<Rightarrow> (Inl e, t, s)
      | (Inr isRegistered, t) \<Rightarrow>
          if \<not> isRegistered then
            (case bind_eff (call Call_getMetamaskActiveAccount (getMetamaskActiveAccount en))
                    (\<lambda>frm. bind_eff (getSymbolType en a)
                       (\<lambda>(sy, isString).
                          let register = TxObject (if isString then ''registerToken''
                                                   else ''registerTokenBytes32'')
                          in bind_eff (call (Send (register [a]) frm) (send en (register [a]) frm))
                               (\<lambda>txHash. (Inr txHash, [ConsoleLog txHash])))) of
               (Inl e, t') \<Rightarrow> (Inl e, t @ t', s)
             | (Inr txHash, t') \<Rightarrow>
                 (case monitorEventProof fuel en k a s of
                    (sub, t'', s') \<Rightarrow> (Inr (Some sub), t @ t' @ t'', s')))
          else (Inr None, t, s))"

subsection \<open>Cross-chain transfers\<close>

text \<open>\<open>amount.toString()\<close> of a non-negative big number: its decimal digits.\<close>

fun toString :: "nat \<Rightarrow> string" where
  "toString n =
     (if n < 10 then [''0123456789'' ! n]
      else toString (n div 10) @ [''0123456789'' ! (n mod 10)])"

declare toString.simps [simp del]

definition NetworkMismatch :: error where
  "NetworkMismatch = Error ''common:Ethereum network type does not match, please switch to {{network}} network in metamask.''"

text \<open>\<open>confirmRegister\<close>, \<open>crossSendErc20FromEthToDvm\<close> and
  \<open>crossSendErc20FromDvmToEth\<close> apply a contract method to its arguments and return
  what that gives; none of them applies \<open>.send\<close> or \<open>.call\<close> to it, as \<open>registerToken\<close>
  does, so none of them causes an event on a chain.\<close>

definition confirmRegister :: "string \<Rightarrow> tx_object eff" where
  "confirmRegister prf = (Inr (TxObject ''crossChainSync'' [prf]), [])"

definition crossSendErc20FromEthToDvm :: "string \<Rightarrow> string \<Rightarrow> nat \<Rightarrow> tx_object eff" where
  "crossSendErc20FromEthToDvm tokenAddress recipientAddress amount =
     (Inr (TxObject ''crossSendToken'' [tokenAddress, recipientAddress, toString amount]), [])"

definition crossSendErc20FromDvmToEth :: "env \<Rightarrow> string \<Rightarrow> string \<Rightarrow> nat \<Rightarrow> tx_object eff" where
  "crossSendErc20FromDvmToEth en tokenAddress recipientAddress amount =
     bind_eff (call (Call_isNetworkMatch (DVM_NETWORK_ID en)) (isNetworkMatch en (DVM_NETWORK_ID en)))
       (\<lambda>isMatch.
          if isMatch then
            (Inr (TxObject ''crossTransfer'' [tokenAddress, recipientAddress, toString amount]), [])
          else (Inl NetworkMismatch, []))"

text \<open>The events that submit a transaction.\<close>

fun is_send :: "event \<Rightarrow> bool" where
  "is_send (Send tx f) = True"
| "is_send ev = False"

subsection \<open>The token catalogue\<close>

text \<open>\<open>getTokenInfo\<close>: \<open>symbol = ""\<close> and \<open>decimals = 0\<close> are the defaults of the
  destructuring; the balance is \<open>toBN(0)\<close> unless an account is given.\<close>

definition getTokenInfo :: "env \<Rightarrow> string \<Rightarrow> string \<Rightarrow> Token eff" where
  "getTokenInfo en tokenAddress currentAccount =
     bind_eff (call (Call_tokenInfoGetter tokenAddress) (tokenInfoGetter en tokenAddress))
       (\<lambda>(sy, dc).
          case getNameAndLogo en tokenAddress of
            Inl e \<Rightarrow> (Inl e, [])
          | Inr (nm, lg) \<Rightarrow>
              bind_eff
                (if currentAccount \<noteq> [] then
                   call (Call_getTokenBalance tokenAddress currentAccount)
                     (getTokenBalance en tokenAddress currentAccount)
                 else (Inr 0, []))
                (\<lambda>bal.
                   (Inr \<lparr>address = tokenAddress,
                         symbol = (case sy of None \<Rightarrow> [] | Some x \<Rightarrow> x),
                         decimals = (case dc of None \<Rightarrow> 0 | Some x \<Rightarrow> x),
                         name = nm, logo = lg, balance = bal\<rparr>, [])))"

text \<open>\<open>Promise.all\<close> over tasks that were all started: the values in the order of the
  tasks when every task is fulfilled; otherwise it rejects with the rejection that comes
  first in time, which is one of \<open>rejections\<close>. The tasks run interleaved, so each keeps
  its own trace.\<close>

fun rejections :: "'a eff list \<Rightarrow> error list" where
  "rejections [] = []"
| "rejections ((Inl e, t) # ts) = e # rejections ts"
| "rejections ((Inr x, t) # ts) = rejections ts"

fun fulfilled :: "'a eff list \<Rightarrow> 'a list" where
  "fulfilled [] = []"
| "fulfilled ((Inl e, t) # ts) = fulfilled ts"
| "fulfilled ((Inr x, t) # ts) = x # fulfilled ts"

definition promise_all :: "'a eff list \<Rightarrow> (error list + 'a list) \<times> event list list" where
  "promise_all ts =
     (if rejections ts = [] then (Inr (fulfilled ts), map snd ts)
      else (Inl (rejections ts), map snd ts))"

text \<open>The body of the \<open>map\<close> callback of \<open>getAllTokensDvm\<close>, for one index.\<close>

definition dvm_token_at :: "env \<Rightarrow> string \<Rightarrow> nat \<Rightarrow> DvmToken eff" where
  "dvm_token_at en currentAccount index =
     bind_eff (call (Call_allTokens index) (allTokens en index))
       (\<lambda>dvm. bind_eff (call (Call_tokenToInfo dvm) (tokenToInfo en dvm))
          (\<lambda>(src, bck). bind_eff (getTokenInfo en src currentAccount)
             (\<lambda>token.
                (Inr \<lparr>address = address token, symbol = symbol token,
                      decimals = decimals token, name = name token, logo = logo token,
                      balance = balance token, source = src, backing = bck\<rparr>, []))))"

text \<open>\<open>new Array(+length)\<close> throws a \<open>RangeError\<close> unless the length is below \<open>2^32\<close>.
  The result is the outcome, the events before the tasks start, and the trace of each
  task.\<close>

definition getAllTokensDvm ::
  "env \<Rightarrow> string \<Rightarrow> (error list + DvmToken list) \<times> event list \<times> event list list" where
  "getAllTokensDvm en currentAccount =
     (case tokenLength en of
        Inl e \<Rightarrow> (Inl [e], [Call_tokenLength], [])
      | Inr len \<Rightarrow>
          if 4294967296 \<le> len then (Inl [RangeError], [Call_tokenLength], [])
          else
            (case promise_all (map (dvm_token_at en currentAccount) [0..<len]) of
               (tokens, traces) \<Rightarrow> (tokens, [Call_tokenLength], traces)))"

definition eth_token_at :: "env \<Rightarrow> string \<Rightarrow> nat \<Rightarrow> Token eff" where
  "eth_token_at en currentAccount index =
     bind_eff (call (Call_allAssets index) (allAssets en index))
       (\<lambda>a. getTokenInfo en a currentAccount)"

definition getAllTokensEthereum ::
  "env \<Rightarrow> string \<Rightarrow> (error list + Token list) \<times> event list \<times> event list list" where
  "getAllTokensEthereum en currentAccount =
     (case assetLength en of
        Inl e \<Rightarrow> (Inl [e], [Call_assetLength], [])
      | Inr len \<Rightarrow>
          if 4294967296 \<le> len then (Inl [RangeError], [Call_assetLength], [])
          else
            (case promise_all (map (eth_token_at en currentAccount) [0..<len]) of
               (tokens, traces) \<Rightarrow> (tokens, [Call_assetLength], traces)))"

datatype token_list = NoTokens | EthTokens "Token list" | DvmTokens "DvmToken list"

definition getAllTokens ::
  "env \<Rightarrow> string \<Rightarrow> string \<Rightarrow> (error list + token_list) \<times> event list \<times> event list list" where
  "getAllTokens en currentAccount networkType =
     (if currentAccount = [] then (Inr NoTokens, [], [])
      else if networkType = ''eth'' then
        (case getAllTokensEthereum en currentAccount of
           (r, t, ts) \<Rightarrow> (map_sum id EthTokens r, t, ts))
      else
        (case getAllTokensDvm en currentAccount of
           (r, t, ts) \<Rightarrow> (map_sum id DvmTokens r, t, ts)))"

subsection \<open>A sample environment\<close>

text \<open>Four tokens on the source chain, one per row of the decision table and one for
  the degenerate record; an indexer that answers a null body twice and then a record; a
  wallet on network 43; two tokens on the destination chain.\<close>

definition sample_record :: IndexerRecord where
  "sample_record = \<lparr>block_hash = ''0xB10C'', block_num = 7, mmr_index = 3, mmr_root = ''0x44''\<rparr>"

definition sample_env :: env where
  "sample_env =
     \<lparr>isAddress = (\<lambda>a. a \<in> set [''0xE2'', ''0xA1'', ''0xD0'', ''0xF0'']),
      hexToNumber = (\<lambda>h. if h = ''0x0'' then Inr 0
                           else if h = ''0xABC'' then Inr 2748
                           else Inl (Error ''not a hex string'')),
      assets = (\<lambda>a. if a = ''0xE2'' then Inr \<lparr>target = ''0x0'', timestamp = 100\<rparr>
                      else if a = ''0xA1'' then Inr \<lparr>target = ''0xABC'', timestamp = 100\<rparr>
                      else if a = ''0xD0'' then Inr \<lparr>target = ''0xABC'', timestamp = 0\<rparr>
                      else Inr \<lparr>target = ''0x0'', timestamp = 0\<rparr>),
      getMetamaskActiveAccount = Inr ''0xME'',
      symbol_call = (\<lambda>a. if a = ''0xF0'' then Inl (Error ''decode'') else Inr ''RING''),
      getSymbolAndDecimals = (\<lambda>a. Inr (''KTON'', 18)),
      send = (\<lambda>tx f. Inr ''0xTX1''),
      indexer = (\<lambda>a k. if k < 2 then Inr None else Inr (Some sample_record)),
      getMPTProof = (\<lambda>h p. Inr ''PROOF''),
      DVM_NETWORK_ID = 43,
      isNetworkMatch = (\<lambda>n. Inr (n = 43)),
      tokenLength = Inr 2,
      allTokens = (\<lambda>i. Inr (if i = 0 then ''0xD0'' else ''0xD1'')),
      tokenToInfo = (\<lambda>d. Inr (if d = ''0xD0'' then (''0xS0'', ''0xBK'') else (''0xS1'', ''0xBK''))),
      assetLength = Inr 2,
      allAssets = (\<lambda>i. Inr (if i = 0 then ''0xS0'' else ''0xS1'')),
      tokenInfoGetter = (\<lambda>a. Inr (Some a, Some 18)),
      getNameAndLogo = (\<lambda>a. Inr (Some a, None)),
      getTokenBalance = (\<lambda>a f. Inr 7)\<rparr>"

text \<open>The same with the wallet on network 1.\<close>

definition wrong_network_env :: env where
  "wrong_network_env = sample_env\<lparr>isNetworkMatch := (\<lambda>n. Inr (n = 1))\<rparr>"

text \<open>The same with an indexer that answers at once and a proof fetch that fails.\<close>

definition failing_proof_env :: env where
  "failing_proof_env =
     sample_env\<lparr>indexer := (\<lambda>a k. Inr (Some sample_record)),
                getMPTProof := (\<lambda>h p. Inl (Error ''no proof''))\<rparr>"

text \<open>The same with a source chain that cannot be read.\<close>

definition unreachable_chain_env :: env where
  "unreachable_chain_env = sample_env\<lparr>assets := (\<lambda>a. Inl (Error ''rpc''))\<rparr>"

text \<open>The same with a fallback symbol resolver that fails.\<close>

definition no_metadata_env :: env where
  "no_metadata_env = sample_env\<lparr>getSymbolAndDecimals := (\<lambda>a. Inl (Error ''no metadata''))\<rparr>"

subsection \<open>The number conversion of the chain library\<close>

text \<open>\<open>Web3.utils.hexToNumber\<close> is library code, not part of this repository; it is
  modelled from the library's documented behaviour. A falsy value is returned as it is
  (the empty string, which \<open>!!\<close> reads as false, like 0); a string that is not an optional
  minus sign, \<open>0x\<close> and hexadecimal digits is refused; otherwise the value is read as a
  big number and turned into a JavaScript number, which throws as soon as the value
  needs more than 53 bits.\<close>

definition hex_digit :: "char \<Rightarrow> nat option" where
  "hex_digit c =
     map_of (zip ''0123456789abcdefABCDEF''
               [0, 1, 2, 3, 4, 5, 6, 7, 8, 9, 10, 11, 12, 13, 14, 15, 10, 11, 12, 13, 14, 15]) c"

fun hex_value :: "string \<Rightarrow> nat \<Rightarrow> nat option" where
  "hex_value [] acc = Some acc"
| "hex_value (c # cs) acc =
     (case hex_digit c of
        None \<Rightarrow> None
      | Some d \<Rightarrow> hex_value cs (16 * acc + d))"

definition not_hex_string :: "string \<Rightarrow> error" where
  "not_hex_string v =
     Error (''Given value '' @ [CHR 0x22] @ v @ [CHR 0x22] @ '' is not a valid hex string.'')"

definition too_wide :: error where
  "too_wide = Error ''Number can only safely store up to 53 bits''"

definition web3_hexToNumber :: "string \<Rightarrow> error + int" where
  "web3_hexToNumber v =
     (if v = [] then Inr 0
      else
        (let neg = (hd v = CHR ''-'');
             body = (if neg then tl v else v)
         in case body of
              z # x # ds \<Rightarrow>
                if z = CHR ''0'' \<and> (x = CHR ''x'' \<or> x = CHR ''X'') then
                  (case hex_value ds 0 of
                     None \<Rightarrow> Inl (not_hex_string v)
                   | Some n \<Rightarrow>
                       if 9007199254740992 \<le> n then Inl too_wide
                       else Inr (if neg then - int n else int n))
                else Inl (not_hex_string v)
            | _ \<Rightarrow> Inl (not_hex_string v)))"

text \<open>The test address of the source's documentation comment, registered with a
  160-bit target; a second token with the degenerate record; a third whose registration
  is pending. The conversion is the library's.\<close>

definition test_address :: string where
  "test_address = ''0x1F4E71cA23f2390669207a06dDDef70BDE75b679''"

definition degenerate_address :: string where
  "degenerate_address = ''0x52bc44d5378309EE2abF1539BF71dE1b7d7bE3b5''"

definition pending_address :: string where
  "pending_address = ''0xdAC17F958D2ee523a2206206994597C13D831ec7''"

definition mapped_address :: string where
  "mapped_address = ''0x8a4b6A2C1e0D5F3b9C7E2A1D4F6B8c0E3a5D7F91''"

definition zero_address :: string where
  "zero_address = ''0x0000000000000000000000000000000000000000''"

definition web3_env :: env where
  "web3_env =
     sample_env
       \<lparr>isAddress := (\<lambda>a. a \<in> set [test_address, degenerate_address, pending_address]),
        hexToNumber := web3_hexToNumber,
        assets := (\<lambda>a. if a = test_address then Inr \<lparr>target = mapped_address, timestamp = 100\<rparr>
                        else if a = degenerate_address
                        then Inr \<lparr>target = mapped_address, timestamp = 0\<rparr>
                        else Inr \<lparr>target = zero_address, timestamp = 100\<rparr>)\<rparr>"

section \<open>Properties\<close>

subsection \<open>Sequencing\<close>

lemma bind_eff_Inr: "bind_eff (Inr x, t) f = (fst (f x), t @ snd (f x))"
  by (simp add: bind_eff_def split: prod.splits)

lemma bind_eff_Inl: "bind_eff (Inl e, t) f = (Inl e, t)"
  by (simp add: bind_eff_def)

subsection \<open>Status of a token\<close>

lemma status_valid:
  assumes "a \<noteq> []" and "isAddress en a" and "assets en a = Inr r"
    and "hexToNumber en (target r) = Inr n"
  shows "getTokenRegisterStatus en a =
     (Inr (Some (if 0 < timestamp r \<and> n = 0 then 2
                 else if 0 < timestamp r \<and> n \<noteq> 0 then 1 else 0)), [Call_assets a])"
  using assms by (simp add: getTokenRegisterStatus_def call_def bind_eff_Inr Let_def)

lemma status_invalid:
  assumes "a = [] \<or> \<not> isAddress en a"
  shows "getTokenRegisterStatus en a = (Inr None, [ConsoleWarn (invalid_address_warning a)])"
  using assms by (auto simp add: getTokenRegisterStatus_def)

lemma hasRegistered_eq:
  "hasRegistered en a =
     (case getTokenRegisterStatus en a of
        (Inl e, t) \<Rightarrow> (Inl e, t)
      | (Inr st, t) \<Rightarrow> (Inr (truthy st), t))"
  by (simp add: hasRegistered_def bind_eff_def split: prod.splits sum.splits)

lemma status_trace:
  "snd (getTokenRegisterStatus en a) = [ConsoleWarn (invalid_address_warning a)]
   \<or> snd (getTokenRegisterStatus en a) = [Call_assets a]"
  by (simp add: getTokenRegisterStatus_def call_def bind_eff_def Let_def
      split: sum.splits)

lemma hasRegistered_trace:
  "filter is_send (snd (hasRegistered en a)) = [] \<and> filter is_query (snd (hasRegistered en a)) = []"
proof -
  have "snd (hasRegistered en a) = snd (getTokenRegisterStatus en a)"
    by (simp add: hasRegistered_eq split: prod.splits sum.splits)
  with status_trace [of en a] show ?thesis by auto
qed

text \<open>Where the conversion of the target returns a number \<open>n\<close>, the status is the one of
  the specification's decision table: Registering for \<open>timestamp > 0\<close> and \<open>n = 0\<close>,
  Registered for \<open>timestamp > 0\<close> and \<open>n \<noteq> 0\<close>, Unregistered otherwise. Where the
  conversion throws, the status query throws.\<close>

lemma status_matches_decision_table:
  assumes "a \<noteq> []" and "isAddress en a" and "assets en a = Inr r"
    and "hexToNumber en (target r) = Inr n"
  shows "fst (getTokenRegisterStatus en a) =
           Inr (Some (status_code
             (if 0 < timestamp r \<and> n = 0 then Registering
              else if 0 < timestamp r \<and> n \<noteq> 0 then Registered
              else Unregistered)))
       \<and> fst (getTokenRegisterStatus en a) =
           Inr (Some (status_code (decision_table (timestamp r) n)))
       \<and> (timestamp r = 0 \<and> n \<noteq> 0 \<longrightarrow>
            fst (getTokenRegisterStatus en a) = Inr (Some (status_code Unregistered)))"
  using assms by (simp add: status_valid decision_table_def)

lemma status_matches_decision_table_sample:
  "fst (getTokenRegisterStatus sample_env ''0xE2'') = Inr (Some (status_code Registering))
   \<and> fst (getTokenRegisterStatus sample_env ''0xA1'') = Inr (Some (status_code Registered))
   \<and> fst (getTokenRegisterStatus sample_env ''0xF0'') = Inr (Some (status_code Unregistered))
   \<and> fst (getTokenRegisterStatus sample_env ''0xD0'') = Inr (Some (status_code Unregistered))"
  using status_matches_decision_table [of "''0xE2''" sample_env "\<lparr>target = ''0x0'', timestamp = 100\<rparr>" 0]
    status_matches_decision_table [of "''0xA1''" sample_env "\<lparr>target = ''0xABC'', timestamp = 100\<rparr>" 2748]
    status_matches_decision_table [of "''0xF0''" sample_env "\<lparr>target = ''0x0'', timestamp = 0\<rparr>" 0]
    status_matches_decision_table [of "''0xD0''" sample_env "\<lparr>target = ''0xABC'', timestamp = 0\<rparr>" 2748]
  by (simp add: sample_env_def)

lemma status_throws:
  assumes "a \<noteq> []" and "isAddress en a" and "assets en a = Inr r"
    and "hexToNumber en (target r) = Inl e"
  shows "getTokenRegisterStatus en a = (Inl e, [Call_assets a])"
  using assms by (simp add: getTokenRegisterStatus_def call_def bind_eff_Inr)

lemma web3_hexToNumber_mapped_address: "web3_hexToNumber mapped_address = Inl too_wide"
  by (simp add: web3_hexToNumber_def mapped_address_def hex_digit_def Let_def)

lemma web3_hexToNumber_zero_address: "web3_hexToNumber zero_address = Inr 0"
  by (simp add: web3_hexToNumber_def zero_address_def hex_digit_def Let_def)

text \<open>
  \<^bold>\<open>Claim C1\<close> says that every record read for a valid address gets the status of the
  decision table: Registered when \<open>timestamp > 0\<close> and \<open>target \<noteq> 0\<close>, Unregistered for
  the degenerate record with \<open>timestamp = 0\<close> and \<open>target \<noteq> 0\<close>. The code turns the
  target into a number before it tests anything, and the library's conversion throws on
  a value wider than 53 bits, as a 160-bit address is. With the library's conversion,
  the registered test address of the documentation comment and the degenerate record
  both make the status query throw, where the table says Registered and Unregistered;
  only the pending registration, whose target is the zero address, gets its status.
\<close>

theorem C1_wide_target_throws:
  "isAddress web3_env test_address
   \<and> assets web3_env test_address = Inr \<lparr>target = mapped_address, timestamp = 100\<rparr>
   \<and> getTokenRegisterStatus web3_env test_address = (Inl too_wide, [Call_assets test_address])
   \<and> isAddress web3_env degenerate_address
   \<and> assets web3_env degenerate_address = Inr \<lparr>target = mapped_address, timestamp = 0\<rparr>
   \<and> getTokenRegisterStatus web3_env degenerate_address =
       (Inl too_wide, [Call_assets degenerate_address])
   \<and> getTokenRegisterStatus web3_env pending_address =
       (Inr (Some (status_code Registering)), [Call_assets pending_address])"
proof -
  have v: "isAddress web3_env test_address" "isAddress web3_env degenerate_address"
    "isAddress web3_env pending_address"
    by (simp_all add: web3_env_def)
  have n: "test_address \<noteq> []" "degenerate_address \<noteq> []" "pending_address \<noteq> []"
    by (simp_all add: test_address_def degenerate_address_def pending_address_def)
  have r1: "assets web3_env test_address = Inr \<lparr>target = mapped_address, timestamp = 100\<rparr>"
    by (simp add: web3_env_def)
  have r2: "assets web3_env degenerate_address = Inr \<lparr>target = mapped_address, timestamp = 0\<rparr>"
    by (simp add: web3_env_def test_address_def degenerate_address_def)
  have r3: "assets web3_env pending_address = Inr \<lparr>target = zero_address, timestamp = 100\<rparr>"
    by (simp add: web3_env_def test_address_def degenerate_address_def pending_address_def)
  have h: "hexToNumber web3_env = web3_hexToNumber"
    by (simp add: web3_env_def)
  have t1: "getTokenRegisterStatus web3_env test_address =
      (Inl too_wide, [Call_assets test_address])"
    by (rule status_throws [OF n(1) v(1) r1]) (simp add: h web3_hexToNumber_mapped_address)
  have t2: "getTokenRegisterStatus web3_env degenerate_address =
      (Inl too_wide, [Call_assets degenerate_address])"
    by (rule status_throws [OF n(2) v(2) r2]) (simp add: h web3_hexToNumber_mapped_address)
  have "hexToNumber web3_env (target \<lparr>target = zero_address, timestamp = 100\<rparr>) = Inr 0"
    by (simp add: h web3_hexToNumber_zero_address)
  from status_valid [OF n(3) v(3) r3 this]
  have t3: "getTokenRegisterStatus web3_env pending_address =
      (Inr (Some (status_code Registering)), [Call_assets pending_address])"
    by simp
  from v r1 r2 t1 t2 t3 show ?thesis by blast
qed

theorem C1_witness:
  "fst (getTokenRegisterStatus web3_env test_address)
     \<noteq> Inr (Some (status_code (decision_table 100 789522531178258833471740517790443193528863260561)))
   \<and> decision_table 100 789522531178258833471740517790443193528863260561 = Registered
   \<and> fst (getTokenRegisterStatus web3_env degenerate_address)
     \<noteq> Inr (Some (status_code (decision_table 0 789522531178258833471740517790443193528863260561)))
   \<and> decision_table 0 789522531178258833471740517790443193528863260561 = Unregistered"
  using C1_wide_target_throws by (simp add: decision_table_def)

text \<open>
  \<^bold>\<open>Claim C3\<close> says that, for every address, valid or not, \<open>hasRegistered\<close> is true exactly
  when the status is not Unregistered. At an invalid address the status is absent, which
  is not Unregistered, and \<open>hasRegistered\<close> is false.
\<close>

theorem C3_counterexample:
  "\<not> (fst (hasRegistered sample_env ''0xZZ'') = Inr True
        \<longleftrightarrow> fst (getTokenRegisterStatus sample_env ''0xZZ'') \<noteq> Inr (Some (status_code Unregistered)))"
  by (simp add: hasRegistered_eq getTokenRegisterStatus_def sample_env_def truthy_def)

text \<open>
  \<^bold>\<open>Claim C3, amended.\<close> Whenever the status query returns a status, \<open>hasRegistered\<close> is
  true exactly when that status is not Unregistered; when the status query returns the
  absent result, \<open>hasRegistered\<close> is false; when it fails, \<open>hasRegistered\<close> fails with
  the same error. The two cause the same events.
\<close>

theorem C3_hasRegistered_iff_not_unregistered:
  "(case fst (getTokenRegisterStatus en a) of
      Inl e \<Rightarrow> fst (hasRegistered en a) = Inl e
    | Inr None \<Rightarrow> fst (hasRegistered en a) = Inr False
    | Inr (Some st) \<Rightarrow> fst (hasRegistered en a) = Inr (st \<noteq> status_code Unregistered))
   \<and> snd (hasRegistered en a) = snd (getTokenRegisterStatus en a)"
  by (simp add: hasRegistered_eq truthy_def split: prod.splits sum.splits option.splits)

theorem C3_witness:
  "fst (hasRegistered sample_env ''0xE2'') = Inr True
   \<and> fst (hasRegistered sample_env ''0xF0'') = Inr False
   \<and> fst (hasRegistered sample_env ''0xZZ'') = Inr False
   \<and> fst (hasRegistered unreachable_chain_env ''0xE2'') = Inl (Error ''rpc'')"
  using C3_hasRegistered_iff_not_unregistered [of sample_env "''0xE2''"]
    C3_hasRegistered_iff_not_unregistered [of sample_env "''0xF0''"]
    C3_hasRegistered_iff_not_unregistered [of sample_env "''0xZZ''"]
    C3_hasRegistered_iff_not_unregistered [of unreachable_chain_env "''0xE2''"]
  by (simp add: getTokenRegisterStatus_def unreachable_chain_env_def sample_env_def call_def
      bind_eff_Inr bind_eff_Inl)

text \<open>
  \<^bold>\<open>Claim C7.\<close> For an empty or syntactically invalid address the status query does not
  throw: it logs one warning, returns the absent result, and does not read the
  registration record.
\<close>

theorem C7_invalid_address_is_absent:
  assumes "a = [] \<or> \<not> isAddress en a"
  shows "getTokenRegisterStatus en a = (Inr None, [ConsoleWarn (invalid_address_warning a)])
       \<and> Call_assets a \<notin> set (snd (getTokenRegisterStatus en a))"
  using assms by (simp add: status_invalid)

theorem C7_witness:
  "getTokenRegisterStatus sample_env ''0xZZ'' =
     (Inr None, [ConsoleWarn ''Token address is invalid, except an ERC20 token address. Received value: 0xZZ''])
   \<and> getTokenRegisterStatus sample_env [] =
     (Inr None, [ConsoleWarn ''Token address is invalid, except an ERC20 token address. Received value: ''])"
  using C7_invalid_address_is_absent [of "''0xZZ''" sample_env]
    C7_invalid_address_is_absent [of "[]" sample_env]
  by (simp add: sample_env_def invalid_address_warning_def)

subsection \<open>The symbol probe\<close>

lemma getSymbolType_trace:
  "filter is_send (snd (getSymbolType en a)) = [] \<and> filter is_query (snd (getSymbolType en a)) = []
   \<and> (\<exists>rest. snd (getSymbolType en a) = Call_symbol a # rest)"
  by (simp add: getSymbolType_def call_def bind_eff_def split: sum.splits prod.splits)

lemma getSymbolType_isString:
  "getSymbolType en a = (Inr (sy, isString), t1) \<Longrightarrow> isString = (\<exists>x. symbol_call en a = Inr x)"
  by (auto simp add: getSymbolType_def call_def bind_eff_def split: sum.splits prod.splits)

text \<open>
  \<^bold>\<open>Claim C5.\<close> \<open>getSymbolType\<close> returns the result of the string-typed \<open>symbol()\<close> call
  with \<open>isString\<close> true when that call succeeds; when it throws, it returns the symbol of
  the fallback resolver with \<open>isString\<close> false. The error of the string-typed call never
  reaches the caller: if the fallback fails too, the error is the fallback's.
\<close>

theorem C5_getSymbolType:
  "(symbol_call en a = Inr sy \<longrightarrow>
      getSymbolType en a = (Inr (sy, True), [Call_symbol a]))
   \<and> (symbol_call en a = Inl err \<and> getSymbolAndDecimals en a = Inr (sy, dc) \<longrightarrow>
      getSymbolType en a = (Inr (sy, False), [Call_symbol a, Call_getSymbolAndDecimals a]))
   \<and> (symbol_call en a = Inl err \<and> getSymbolAndDecimals en a = Inl err' \<longrightarrow>
      getSymbolType en a = (Inl err', [Call_symbol a, Call_getSymbolAndDecimals a]))"
  by (simp add: getSymbolType_def call_def bind_eff_def)

theorem C5_witness:
  "getSymbolType sample_env ''0xE2'' = (Inr (''RING'', True), [Call_symbol ''0xE2''])
   \<and> getSymbolType sample_env ''0xF0'' =
       (Inr (''KTON'', False), [Call_symbol ''0xF0'', Call_getSymbolAndDecimals ''0xF0''])
   \<and> getSymbolType no_metadata_env ''0xF0'' =
       (Inl (Error ''no metadata''), [Call_symbol ''0xF0'', Call_getSymbolAndDecimals ''0xF0''])"
  using C5_getSymbolType [of sample_env "''0xE2''" "''RING''" "Error ''decode''" 18 "Error []"]
    C5_getSymbolType [of sample_env "''0xF0''" "''KTON''" "Error ''decode''" 18 "Error []"]
    C5_getSymbolType [of no_metadata_env "''0xF0''" "''KTON''" "Error ''decode''" 18 "Error ''no metadata''"]
  by (simp add: no_metadata_env_def sample_env_def)

subsection \<open>Proof monitoring\<close>

lemma retryWhen_rejected:
  "map_data api = Inl e \<Longrightarrow> retryWhen fuel api = (None, replicate fuel (Delay 3000))"
  by (induction fuel) simp_all

lemma retryWhen_record:
  "map_data api = Inr d \<Longrightarrow> 0 < fuel \<Longrightarrow> retryWhen fuel api = (Some d, [])"
  by (cases fuel) simp_all

lemma retryWhen_delays: "set (snd (retryWhen fuel api)) \<subseteq> {Delay 3000}"
proof (cases "map_data api")
  case (Inl e)
  then show ?thesis by (auto simp add: retryWhen_rejected)
next
  case (Inr d)
  then show ?thesis by (cases fuel) simp_all
qed

lemma switchMap_events:
  "ev \<in> set (fst (switchMap en d s)) \<Longrightarrow> \<not> is_query ev \<and> \<not> is_send ev"
  by (auto simp add: switchMap_def subject_error_def subject_next_def subject_complete_def
      split: sum.splits if_splits)

lemma monitor_trace_shape:
  "\<exists>rest. fst (snd (monitorEventProof fuel en k a s)) = IndexerGet a # rest
     \<and> (\<forall>ev \<in> set rest. \<not> is_query ev \<and> \<not> is_send ev)"
proof (cases "retryWhen fuel (indexer en a k)")
  case (Pair r t)
  have t: "\<forall>ev \<in> set t. \<not> is_query ev \<and> \<not> is_send ev"
    using retryWhen_delays [of fuel "indexer en a k"] Pair by auto
  show ?thesis
  proof (cases r)
    case None
    with Pair t show ?thesis by (simp add: monitorEventProof_def)
  next
    case (Some d)
    obtain t' s' where sw: "switchMap en d s = (t', s')"
      by (cases "switchMap en d s") auto
    then have "\<forall>ev \<in> set t'. \<not> is_query ev \<and> \<not> is_send ev"
      using switchMap_events [of _ en d s] by auto
    with Pair t Some sw show ?thesis by (auto simp add: monitorEventProof_def)
  qed
qed

lemma monitor_one_query:
  "length (filter is_query (fst (snd (monitorEventProof fuel en k a s)))) = 1"
proof -
  obtain rest where r: "fst (snd (monitorEventProof fuel en k a s)) = IndexerGet a # rest"
    and n: "\<forall>ev \<in> set rest. \<not> is_query ev \<and> \<not> is_send ev"
    using monitor_trace_shape by blast
  from n have "filter is_query rest = []" by (simp add: filter_empty_conv)
  with r show ?thesis by simp
qed

lemma monitor_null:
  assumes "map_data (indexer en a k) = Inl e"
  shows "monitorEventProof fuel en k a s =
           (Subscription a, IndexerGet a # replicate fuel (Delay 3000), s)"
  using assms by (simp add: monitorEventProof_def retryWhen_rejected)

lemma monitor_subscription: "fst (monitorEventProof fuel en k a s) = Subscription a"
  by (simp add: monitorEventProof_def split: prod.splits option.splits)

text \<open>
  \<^bold>\<open>Claim C2\<close> expects three queries when the indexer answers a null body twice and then
  a record. The code makes the query once, before the pipeline, and every retry reads
  the answer to that one query again: with the sample indexer, whatever the fuel, the
  only events are the one query and a delay of 3000 for each retry, the proof is never
  fetched and the subject is untouched. In every environment a monitor makes exactly
  one query.
\<close>

theorem C2_one_query_then_waits_forever:
  "indexer sample_env ''0xE2'' 0 = Inr None
   \<and> indexer sample_env ''0xE2'' 1 = Inr None
   \<and> indexer sample_env ''0xE2'' 2 = Inr (Some sample_record)
   \<and> (\<forall>fuel. monitorEventProof fuel sample_env 0 ''0xE2'' new_Subject =
         (Subscription ''0xE2'', IndexerGet ''0xE2'' # replicate fuel (Delay 3000), new_Subject))
   \<and> (\<forall>fuel en k a s. length (filter is_query (fst (snd (monitorEventProof fuel en k a s)))) = 1)"
proof -
  have "map_data (indexer sample_env ''0xE2'' 0) = Inl (Error ''Unreceived register block info'')"
    by (simp add: sample_env_def map_data_def)
  then have "\<forall>fuel. monitorEventProof fuel sample_env 0 ''0xE2'' new_Subject =
         (Subscription ''0xE2'', IndexerGet ''0xE2'' # replicate fuel (Delay 3000), new_Subject)"
    by (simp add: monitor_null)
  moreover have "indexer sample_env ''0xE2'' 0 = Inr None
   \<and> indexer sample_env ''0xE2'' 1 = Inr None
   \<and> indexer sample_env ''0xE2'' 2 = Inr (Some sample_record)"
    by (simp add: sample_env_def)
  ultimately show ?thesis using monitor_one_query by blast
qed

theorem C2_witness:
  "monitorEventProof 3 sample_env 0 ''0xE2'' new_Subject =
     (Subscription ''0xE2'',
      [IndexerGet ''0xE2'', Delay 3000, Delay 3000, Delay 3000], new_Subject)"
proof -
  have "monitorEventProof 3 sample_env 0 ''0xE2'' new_Subject =
         (Subscription ''0xE2'', IndexerGet ''0xE2'' # replicate 3 (Delay 3000), new_Subject)"
    using C2_one_query_then_waits_forever by blast
  then show ?thesis by (simp add: numeral_3_eq_3)
qed

subsection \<open>The shared subject\<close>

lemma subscribe_stopped:
  "isStopped s \<Longrightarrow> filter is_proof_event (fst (subject_subscribe s n)) = []
     \<and> isStopped (snd (subject_subscribe s n))"
  by (simp add: subject_subscribe_def split: option.splits)

lemma switchMap_stopped:
  "isStopped s \<Longrightarrow> filter is_proof_event (fst (switchMap en d s)) = []
     \<and> isStopped (snd (switchMap en d s))"
  by (simp add: switchMap_def subject_error_def subject_next_def subject_complete_def
      filter_empty_conv split: sum.splits)

lemma monitor_stopped:
  assumes "isStopped s"
  shows "filter is_proof_event (fst (snd (monitorEventProof fuel en k a s))) = []
     \<and> isStopped (snd (snd (monitorEventProof fuel en k a s)))"
proof (cases "retryWhen fuel (indexer en a k)")
  case (Pair r t)
  have t: "filter is_proof_event t = []"
    using retryWhen_delays [of fuel "indexer en a k"] Pair by (auto simp add: filter_empty_conv)
  show ?thesis
  proof (cases r)
    case None
    with Pair t assms show ?thesis by (simp add: monitorEventProof_def)
  next
    case (Some d)
    obtain t' s' where sw: "switchMap en d s = (t', s')"
      by (cases "switchMap en d s") auto
    with switchMap_stopped [OF assms, of en d]
    have "filter is_proof_event t' = []" and "isStopped s'" by simp_all
    with Pair t Some sw show ?thesis by (simp add: monitorEventProof_def)
  qed
qed

lemma run_actions_stopped:
  "isStopped s \<Longrightarrow> filter is_proof_event (fst (run_actions acts s)) = []
     \<and> isStopped (snd (run_actions acts s))"
proof (induction acts arbitrary: s)
  case Nil
  then show ?case by simp
next
  case (Cons act acts)
  show ?case
  proof (cases act)
    case (Monitor fuel en k a)
    obtain sub t s' where m: "monitorEventProof fuel en k a s = (sub, t, s')"
      by (cases "monitorEventProof fuel en k a s") auto
    with monitor_stopped [OF Cons.prems, of fuel en k a]
    have t: "filter is_proof_event t = []" and s': "isStopped s'" by simp_all
    obtain t' s'' where r: "run_actions acts s' = (t', s'')"
      by (cases "run_actions acts s'") auto
    with Cons.IH [OF s'] have "filter is_proof_event t' = []" and "isStopped s''" by simp_all
    with t m r Monitor show ?thesis by simp
  next
    case (Subscribe n)
    obtain t s' where m: "subject_subscribe s n = (t, s')"
      by (cases "subject_subscribe s n") auto
    with subscribe_stopped [OF Cons.prems, of n]
    have t: "filter is_proof_event t = []" and s': "isStopped s'" by simp_all
    obtain t' s'' where r: "run_actions acts s' = (t', s'')"
      by (cases "run_actions acts s'") auto
    with Cons.IH [OF s'] have "filter is_proof_event t' = []" and "isStopped s''" by simp_all
    with t m r Subscribe show ?thesis by simp
  qed
qed

lemma monitor_proof_failure:
  assumes "indexer en a k = Inr (Some d)"
    and "getMPTProof en (block_hash d) proofAddress = Inl e"
    and "0 < fuel"
  shows "monitorEventProof fuel en k a s =
          (Subscription a,
           IndexerGet a # Call_getMPTProof (block_hash d) proofAddress
             # map (\<lambda>n. ErrorTo n e) (observers s),
           s\<lparr>isStopped := True, thrownError := Some e, observers := []\<rparr>)"
proof -
  have "map_data (indexer en a k) = Inr d" using assms(1) by (simp add: map_data_def)
  then have "retryWhen fuel (indexer en a k) = (Some d, [])"
    using assms(3) by (rule retryWhen_record)
  then show ?thesis using assms(2)
    by (simp add: monitorEventProof_def switchMap_def subject_error_def)
qed

text \<open>
  \<^bold>\<open>Claim C10.\<close> Every monitor publishes into the one subject of the module. When the
  proof fetch of one monitored address fails, the error is handed to the subject: each
  subscriber is told the error and the subject is stopped. Whatever happens afterwards,
  for any address in any environment and for any new subscriber, no subscriber receives
  a proof again.
\<close>

theorem C10_proof_failure_ends_the_shared_stream:
  assumes "indexer en a k = Inr (Some d)"
    and "getMPTProof en (block_hash d) proofAddress = Inl e"
    and "0 < fuel"
  shows "monitorEventProof fuel en k a s =
          (Subscription a,
           IndexerGet a # Call_getMPTProof (block_hash d) proofAddress
             # map (\<lambda>n. ErrorTo n e) (observers s),
           s\<lparr>isStopped := True, thrownError := Some e, observers := []\<rparr>)
       \<and> (\<forall>acts. filter is_proof_event
              (fst (run_actions acts (snd (snd (monitorEventProof fuel en k a s))))) = [])"
proof -
  let ?s' = "s\<lparr>isStopped := True, thrownError := Some e, observers := []\<rparr>"
  have m: "monitorEventProof fuel en k a s =
          (Subscription a,
           IndexerGet a # Call_getMPTProof (block_hash d) proofAddress
             # map (\<lambda>n. ErrorTo n e) (observers s), ?s')"
    using assms by (rule monitor_proof_failure)
  have "isStopped ?s'" by simp
  then have "\<forall>acts. filter is_proof_event (fst (run_actions acts ?s')) = []"
    using run_actions_stopped by blast
  with m show ?thesis by simp
qed

theorem C10_witness:
  "monitorEventProof 1 failing_proof_env 0 ''0xF0'' (new_Subject\<lparr>observers := [1, 2]\<rparr>) =
     (Subscription ''0xF0'',
      [IndexerGet ''0xF0'', Call_getMPTProof ''0xB10C'' proofAddress,
       ErrorTo 1 (Error ''no proof''), ErrorTo 2 (Error ''no proof'')],
      \<lparr>isStopped = True, thrownError = Some (Error ''no proof''), observers = []\<rparr>)
   \<and> filter is_proof_event
       (fst (run_actions [Subscribe 3, Monitor 1 (sample_env\<lparr>indexer := (\<lambda>a k. Inr (Some sample_record))\<rparr>) 0 ''0xE2'']
          (snd (snd (monitorEventProof 1 failing_proof_env 0 ''0xF0'' (new_Subject\<lparr>observers := [1, 2]\<rparr>))))))
       = []
   \<and> filter is_proof_event
       (fst (run_actions [Subscribe 3, Monitor 1 (sample_env\<lparr>indexer := (\<lambda>a k. Inr (Some sample_record))\<rparr>) 0 ''0xE2'']
          (new_Subject\<lparr>observers := [1, 2]\<rparr>)))
       = [Next 1 ''PROOF'', Next 2 ''PROOF'', Next 3 ''PROOF'']"
proof -
  have 1: "indexer failing_proof_env ''0xF0'' 0 = Inr (Some sample_record)"
    by (simp add: failing_proof_env_def sample_env_def)
  have 2: "getMPTProof failing_proof_env (block_hash sample_record) proofAddress = Inl (Error ''no proof'')"
    by (simp add: failing_proof_env_def sample_env_def)
  have 3: "(0::nat) < 1" by simp
  have 4: "filter is_proof_event
       (fst (run_actions [Subscribe 3, Monitor 1 (sample_env\<lparr>indexer := (\<lambda>a k. Inr (Some sample_record))\<rparr>) 0 ''0xE2'']
          (new_Subject\<lparr>observers := [1, 2]\<rparr>)))
       = [Next 1 ''PROOF'', Next 2 ''PROOF'', Next 3 ''PROOF'']"
    by (simp add: monitorEventProof_def switchMap_def subject_subscribe_def subject_next_def
        subject_complete_def new_Subject_def sample_env_def map_data_def)
  note th = C10_proof_failure_ends_the_shared_stream [OF 1 2 3, of "new_Subject\<lparr>observers := [1, 2]\<rparr>"]
  from th have "monitorEventProof 1 failing_proof_env 0 ''0xF0'' (new_Subject\<lparr>observers := [1, 2]\<rparr>) =
     (Subscription ''0xF0'',
      IndexerGet ''0xF0'' # Call_getMPTProof (block_hash sample_record) proofAddress
        # map (\<lambda>n. ErrorTo n (Error ''no proof'')) (observers (new_Subject\<lparr>observers := [1, 2]\<rparr>)),
      new_Subject\<lparr>observers := [1, 2]\<rparr>\<lparr>isStopped := True, thrownError := Some (Error ''no proof''), observers := []\<rparr>)"
    by (rule conjunct1)
  then have 5: "monitorEventProof 1 failing_proof_env 0 ''0xF0'' (new_Subject\<lparr>observers := [1, 2]\<rparr>) =
     (Subscription ''0xF0'',
      [IndexerGet ''0xF0'', Call_getMPTProof ''0xB10C'' proofAddress,
       ErrorTo 1 (Error ''no proof''), ErrorTo 2 (Error ''no proof'')],
      \<lparr>isStopped = True, thrownError = Some (Error ''no proof''), observers = []\<rparr>)"
    by (simp add: new_Subject_def sample_record_def)
  from th have 6: "filter is_proof_event
       (fst (run_actions [Subscribe 3, Monitor 1 (sample_env\<lparr>indexer := (\<lambda>a k. Inr (Some sample_record))\<rparr>) 0 ''0xE2'']
          (snd (snd (monitorEventProof 1 failing_proof_env 0 ''0xF0'' (new_Subject\<lparr>observers := [1, 2]\<rparr>))))))
       = []"
    by blast
  from 4 5 6 show ?thesis by blast
qed

subsection \<open>Registration\<close>

lemma registerToken_registered:
  "hasRegistered en a = (Inr True, t) \<Longrightarrow> registerToken fuel en k a s = (Inr None, t, s)"
  by (simp add: registerToken_def)

lemma registerToken_unregistered:
  assumes "hasRegistered en a = (Inr False, t)"
    and "getMetamaskActiveAccount en = Inr frm"
    and "getSymbolType en a = (Inr (sy, isString), t1)"
    and "send en (TxObject (if isString then ''registerToken'' else ''registerTokenBytes32'') [a]) frm
           = Inr txHash"
  shows "registerToken fuel en k a s =
     (Inr (Some (Subscription a)),
      t @ Call_getMetamaskActiveAccount # t1
        @ [Send (TxObject (if isString then ''registerToken'' else ''registerTokenBytes32'') [a]) frm,
           ConsoleLog txHash]
        @ fst (snd (monitorEventProof fuel en k a s)),
      snd (snd (monitorEventProof fuel en k a s)))"
proof -
  obtain sub tm s' where m: "monitorEventProof fuel en k a s = (sub, tm, s')"
    by (cases "monitorEventProof fuel en k a s") auto
  with monitor_subscription [of fuel en k a s] have "sub = Subscription a" by simp
  with m assms show ?thesis
    by (simp add: registerToken_def call_def bind_eff_Inr Let_def)
qed

lemma registerToken_proceeds:
  assumes "hasRegistered en a = (Inr False, t)"
  shows "\<exists>rest. fst (snd (registerToken fuel en k a s)) = t @ Call_getMetamaskActiveAccount # rest
           \<and> (\<forall>frm. getMetamaskActiveAccount en = Inr frm \<longrightarrow> (\<exists>rest'. rest = Call_symbol a # rest'))"
proof (cases "getMetamaskActiveAccount en")
  case (Inl e)
  with assms show ?thesis by (simp add: registerToken_def call_def bind_eff_Inl)
next
  case (Inr frm)
  obtain rest where g: "snd (getSymbolType en a) = Call_symbol a # rest"
    using getSymbolType_trace by blast
  show ?thesis
  proof (cases "fst (getSymbolType en a)")
    case (Inl e)
    with g have "getSymbolType en a = (Inl e, Call_symbol a # rest)"
      by (cases "getSymbolType en a") simp
    with assms Inr show ?thesis by (simp add: registerToken_def call_def bind_eff_Inr bind_eff_Inl)
  next
    case (Inr p)
    with g have "getSymbolType en a = (Inr p, Call_symbol a # rest)"
      by (cases "getSymbolType en a") simp
    with assms \<open>getMetamaskActiveAccount en = Inr frm\<close> show ?thesis
      by (cases p)
        (simp add: registerToken_def call_def bind_eff_Inr bind_eff_def Let_def
          split: sum.splits prod.splits)
  qed
qed

text \<open>
  \<^bold>\<open>Claim C4.\<close> When \<open>hasRegistered\<close> is true, \<open>registerToken\<close> returns nothing, with no
  event beyond the status query: no transaction is sent and no indexer query is made.
  When it is false and the wallet, the symbol probe and the submission succeed,
  \<open>registerToken\<close> sends exactly one transaction, \<open>registerToken\<close> if the string-typed
  symbol call succeeded and \<open>registerTokenBytes32\<close> otherwise, logs its hash, only then
  starts monitoring (the indexer query comes after the send), and returns the
  subscription.
\<close>

theorem C4_registerToken:
  "(hasRegistered en a = (Inr True, t) \<longrightarrow>
      registerToken fuel en k a s = (Inr None, t, s)
      \<and> filter is_send t = [] \<and> filter is_query t = [])
   \<and> (hasRegistered en a = (Inr False, t)
        \<and> getMetamaskActiveAccount en = Inr frm
        \<and> getSymbolType en a = (Inr (sy, isString), t1)
        \<and> send en (TxObject (if isString then ''registerToken'' else ''registerTokenBytes32'') [a]) frm
             = Inr txHash \<longrightarrow>
      (\<exists>rest.
         registerToken fuel en k a s =
           (Inr (Some (Subscription a)),
            t @ Call_getMetamaskActiveAccount # t1
              @ [Send (TxObject (if isString then ''registerToken'' else ''registerTokenBytes32'') [a]) frm,
                 ConsoleLog txHash, IndexerGet a]
              @ rest,
            snd (snd (monitorEventProof fuel en k a s)))
         \<and> filter is_send rest = [] \<and> filter is_query rest = [])
      \<and> filter is_send (t @ Call_getMetamaskActiveAccount # t1) = []
      \<and> filter is_query (t @ Call_getMetamaskActiveAccount # t1) = []
      \<and> isString = (\<exists>x. symbol_call en a = Inr x))"
proof (intro conjI impI)
  assume h: "hasRegistered en a = (Inr True, t)"
  then show "registerToken fuel en k a s = (Inr None, t, s)" by (rule registerToken_registered)
  from h hasRegistered_trace [of en a] show "filter is_send t = []" and "filter is_query t = []"
    by simp_all
next
  assume h: "hasRegistered en a = (Inr False, t)
        \<and> getMetamaskActiveAccount en = Inr frm
        \<and> getSymbolType en a = (Inr (sy, isString), t1)
        \<and> send en (TxObject (if isString then ''registerToken'' else ''registerTokenBytes32'') [a]) frm
             = Inr txHash"
  obtain rest where r: "fst (snd (monitorEventProof fuel en k a s)) = IndexerGet a # rest"
    and n: "\<forall>ev \<in> set rest. \<not> is_query ev \<and> \<not> is_send ev"
    using monitor_trace_shape by blast
  from n have f: "filter is_send rest = []" "filter is_query rest = []"
    by (simp_all add: filter_empty_conv)
  from h have "registerToken fuel en k a s =
     (Inr (Some (Subscription a)),
      t @ Call_getMetamaskActiveAccount # t1
        @ [Send (TxObject (if isString then ''registerToken'' else ''registerTokenBytes32'') [a]) frm,
           ConsoleLog txHash]
        @ fst (snd (monitorEventProof fuel en k a s)),
      snd (snd (monitorEventProof fuel en k a s)))"
    by (intro registerToken_unregistered) simp_all
  with r f show "\<exists>rest.
         registerToken fuel en k a s =
           (Inr (Some (Subscription a)),
            t @ Call_getMetamaskActiveAccount # t1
              @ [Send (TxObject (if isString then ''registerToken'' else ''registerTokenBytes32'') [a]) frm,
                 ConsoleLog txHash, IndexerGet a]
              @ rest,
            snd (snd (monitorEventProof fuel en k a s)))
         \<and> filter is_send rest = [] \<and> filter is_query rest = []"
    by simp
  from h hasRegistered_trace [of en a] getSymbolType_trace [of en a]
  show "filter is_send (t @ Call_getMetamaskActiveAccount # t1) = []"
    and "filter is_query (t @ Call_getMetamaskActiveAccount # t1) = []"
    by simp_all
  from h show "isString = (\<exists>x. symbol_call en a = Inr x)"
    using getSymbolType_isString by blast
qed

theorem C4_witness:
  "registerToken 2 sample_env 0 ''0xA1'' new_Subject = (Inr None, [Call_assets ''0xA1''], new_Subject)
   \<and> fst (registerToken 2 sample_env 0 ''0xF0'' new_Subject) = Inr (Some (Subscription ''0xF0''))
   \<and> take 6 (fst (snd (registerToken 2 sample_env 0 ''0xF0'' new_Subject))) =
       [Call_assets ''0xF0'', Call_getMetamaskActiveAccount, Call_symbol ''0xF0'',
        Call_getSymbolAndDecimals ''0xF0'',
        Send (TxObject ''registerTokenBytes32'' [''0xF0'']) ''0xME'', ConsoleLog ''0xTX1'']"
proof -
  have 1: "hasRegistered sample_env ''0xA1'' = (Inr True, [Call_assets ''0xA1''])"
    by (simp add: hasRegistered_eq getTokenRegisterStatus_def sample_env_def call_def
        bind_eff_Inr truthy_def)
  have 2: "hasRegistered sample_env ''0xF0'' = (Inr False, [Call_assets ''0xF0''])"
    by (simp add: hasRegistered_eq getTokenRegisterStatus_def sample_env_def call_def
        bind_eff_Inr truthy_def)
  have 3: "getMetamaskActiveAccount sample_env = Inr ''0xME''"
    by (simp add: sample_env_def)
  have 4: "getSymbolType sample_env ''0xF0'' =
      (Inr (''KTON'', False), [Call_symbol ''0xF0'', Call_getSymbolAndDecimals ''0xF0''])"
    by (simp add: getSymbolType_def sample_env_def call_def bind_eff_Inr)
  have 5: "send sample_env (TxObject (if False then ''registerToken'' else ''registerTokenBytes32'') [''0xF0'']) ''0xME''
      = Inr ''0xTX1''"
    by (simp add: sample_env_def)
  from 1 C4_registerToken [of sample_env "''0xA1''" "[Call_assets ''0xA1'']" 2 0 new_Subject]
  have a: "registerToken 2 sample_env 0 ''0xA1'' new_Subject = (Inr None, [Call_assets ''0xA1''], new_Subject)"
    by blast
  from 2 3 4 5 C4_registerToken [of sample_env "''0xF0''" "[Call_assets ''0xF0'']" 2 0 new_Subject
      "''0xME''" "''KTON''" False "[Call_symbol ''0xF0'', Call_getSymbolAndDecimals ''0xF0'']" "''0xTX1''"]
  obtain rest where "registerToken 2 sample_env 0 ''0xF0'' new_Subject =
           (Inr (Some (Subscription ''0xF0'')),
            [Call_assets ''0xF0''] @ Call_getMetamaskActiveAccount # [Call_symbol ''0xF0'', Call_getSymbolAndDecimals ''0xF0'']
              @ [Send (TxObject (if False then ''registerToken'' else ''registerTokenBytes32'') [''0xF0'']) ''0xME'',
                 ConsoleLog ''0xTX1'', IndexerGet ''0xF0'']
              @ rest,
            snd (snd (monitorEventProof 2 sample_env 0 ''0xF0'' new_Subject)))"
    by blast
  then have b: "fst (registerToken 2 sample_env 0 ''0xF0'' new_Subject) = Inr (Some (Subscription ''0xF0''))"
    and c: "take 6 (fst (snd (registerToken 2 sample_env 0 ''0xF0'' new_Subject))) =
       [Call_assets ''0xF0'', Call_getMetamaskActiveAccount, Call_symbol ''0xF0'',
        Call_getSymbolAndDecimals ''0xF0'',
        Send (TxObject ''registerTokenBytes32'' [''0xF0'']) ''0xME'', ConsoleLog ''0xTX1'']"
    by simp_all
  from a b c show ?thesis by blast
qed

text \<open>
  \<^bold>\<open>Claim C9.\<close> For a syntactically invalid address the status query returns the absent
  result, \<open>hasRegistered\<close> turns it into false, and \<open>registerToken\<close> does not reject the
  address: after the warning it asks the wallet for the account and probes the symbol,
  and when those and the submission succeed it sends the registration transaction for
  the invalid address and returns a subscription.
\<close>

theorem C9_invalid_address_is_registered_anyway:
  assumes "a = [] \<or> \<not> isAddress en a"
  shows "getTokenRegisterStatus en a = (Inr None, [ConsoleWarn (invalid_address_warning a)])
   \<and> hasRegistered en a = (Inr False, [ConsoleWarn (invalid_address_warning a)])
   \<and> (\<exists>rest. fst (snd (registerToken fuel en k a s)) =
          ConsoleWarn (invalid_address_warning a) # Call_getMetamaskActiveAccount # rest
        \<and> (\<forall>frm. getMetamaskActiveAccount en = Inr frm \<longrightarrow> (\<exists>rest'. rest = Call_symbol a # rest')))
   \<and> (getMetamaskActiveAccount en = Inr frm
        \<and> getSymbolType en a = (Inr (sy, isString), t1)
        \<and> send en (TxObject (if isString then ''registerToken'' else ''registerTokenBytes32'') [a]) frm
             = Inr txHash \<longrightarrow>
      fst (registerToken fuel en k a s) = Inr (Some (Subscription a))
      \<and> Send (TxObject (if isString then ''registerToken'' else ''registerTokenBytes32'') [a]) frm
          \<in> set (fst (snd (registerToken fuel en k a s))))"
proof -
  have st: "getTokenRegisterStatus en a = (Inr None, [ConsoleWarn (invalid_address_warning a)])"
    using assms by (rule status_invalid)
  then have hr: "hasRegistered en a = (Inr False, [ConsoleWarn (invalid_address_warning a)])"
    by (simp add: hasRegistered_eq truthy_def)
  have pr: "\<exists>rest. fst (snd (registerToken fuel en k a s)) =
          ConsoleWarn (invalid_address_warning a) # Call_getMetamaskActiveAccount # rest
        \<and> (\<forall>frm. getMetamaskActiveAccount en = Inr frm \<longrightarrow> (\<exists>rest'. rest = Call_symbol a # rest'))"
    using registerToken_proceeds [OF hr, of fuel k s] by simp
  have sd: "getMetamaskActiveAccount en = Inr frm
        \<and> getSymbolType en a = (Inr (sy, isString), t1)
        \<and> send en (TxObject (if isString then ''registerToken'' else ''registerTokenBytes32'') [a]) frm
             = Inr txHash \<longrightarrow>
      fst (registerToken fuel en k a s) = Inr (Some (Subscription a))
      \<and> Send (TxObject (if isString then ''registerToken'' else ''registerTokenBytes32'') [a]) frm
          \<in> set (fst (snd (registerToken fuel en k a s)))"
  proof
    assume h: "getMetamaskActiveAccount en = Inr frm
        \<and> getSymbolType en a = (Inr (sy, isString), t1)
        \<and> send en (TxObject (if isString then ''registerToken'' else ''registerTokenBytes32'') [a]) frm
             = Inr txHash"
    then have "registerToken fuel en k a s =
     (Inr (Some (Subscription a)),
      [ConsoleWarn (invalid_address_warning a)] @ Call_getMetamaskActiveAccount # t1
        @ [Send (TxObject (if isString then ''registerToken'' else ''registerTokenBytes32'') [a]) frm,
           ConsoleLog txHash]
        @ fst (snd (monitorEventProof fuel en k a s)),
      snd (snd (monitorEventProof fuel en k a s)))"
      by (intro registerToken_unregistered hr) simp_all
    then show "fst (registerToken fuel en k a s) = Inr (Some (Subscription a))
      \<and> Send (TxObject (if isString then ''registerToken'' else ''registerTokenBytes32'') [a]) frm
          \<in> set (fst (snd (registerToken fuel en k a s)))"
      by simp
  qed
  from st hr pr sd show ?thesis by blast
qed

theorem C9_witness:
  "getTokenRegisterStatus sample_env ''0xZZ'' = (Inr None, [ConsoleWarn (invalid_address_warning ''0xZZ'')])
   \<and> hasRegistered sample_env ''0xZZ'' = (Inr False, [ConsoleWarn (invalid_address_warning ''0xZZ'')])
   \<and> fst (registerToken 2 sample_env 0 ''0xZZ'' new_Subject) = Inr (Some (Subscription ''0xZZ''))
   \<and> Send (TxObject ''registerToken'' [''0xZZ'']) ''0xME''
       \<in> set (fst (snd (registerToken 2 sample_env 0 ''0xZZ'' new_Subject)))"
proof -
  have 0: "''0xZZ'' = [] \<or> \<not> isAddress sample_env ''0xZZ''"
    by (simp add: sample_env_def)
  have 1: "getMetamaskActiveAccount sample_env = Inr ''0xME''
     \<and> getSymbolType sample_env ''0xZZ'' = (Inr (''RING'', True), [Call_symbol ''0xZZ''])
     \<and> send sample_env (TxObject (if True then ''registerToken'' else ''registerTokenBytes32'') [''0xZZ'']) ''0xME''
          = Inr ''0xTX1''"
    by (simp add: getSymbolType_def sample_env_def)
  from 1 C9_invalid_address_is_registered_anyway [OF 0, of 2 0 new_Subject "''0xME''" "''RING''" True
      "[Call_symbol ''0xZZ'']" "''0xTX1''"]
  show ?thesis by simp
qed

subsection \<open>Cross-chain transfer\<close>

text \<open>
  \<^bold>\<open>Claim C6\<close> says that the transfer is submitted when the network matches. On a matching
  network the function builds the \<open>crossTransfer\<close> call and returns it; it sends
  nothing.
\<close>

theorem C6_counterexample:
  "isNetworkMatch sample_env (DVM_NETWORK_ID sample_env) = Inr True
   \<and> crossSendErc20FromDvmToEth sample_env ''0xT'' ''0xR'' 1250 =
       (Inr (TxObject ''crossTransfer'' [''0xT'', ''0xR'', ''1250'']), [Call_isNetworkMatch 43])
   \<and> \<not> list_ex is_send (snd (crossSendErc20FromDvmToEth sample_env ''0xT'' ''0xR'' 1250))"
  by (simp add: crossSendErc20FromDvmToEth_def sample_env_def call_def bind_eff_Inr
      toString.simps [of 1250] toString.simps [of 125] toString.simps [of 12] toString.simps [of "Suc 0"])

text \<open>
  \<^bold>\<open>Claim C6, amended.\<close> When the wallet's network does not match the expected network
  id, the destination-to-source transfer fails with the network-mismatch error and the
  \<open>crossTransfer\<close> call is not built. When it matches, the function builds the
  \<open>crossTransfer\<close> call of the mapping contract for the token, the recipient and the
  amount as a decimal string, and returns it to the caller. In neither case does the
  function send a transaction.
\<close>

theorem C6_network_gate:
  "(isNetworkMatch en (DVM_NETWORK_ID en) = Inr False \<longrightarrow>
      crossSendErc20FromDvmToEth en tk rc amt =
        (Inl NetworkMismatch, [Call_isNetworkMatch (DVM_NETWORK_ID en)]))
   \<and> (isNetworkMatch en (DVM_NETWORK_ID en) = Inr True \<longrightarrow>
      crossSendErc20FromDvmToEth en tk rc amt =
        (Inr (TxObject ''crossTransfer'' [tk, rc, toString amt]),
         [Call_isNetworkMatch (DVM_NETWORK_ID en)]))
   \<and> \<not> list_ex is_send (snd (crossSendErc20FromDvmToEth en tk rc amt))"
  by (simp add: crossSendErc20FromDvmToEth_def call_def bind_eff_def split: sum.splits)

theorem C6_witness:
  "crossSendErc20FromDvmToEth wrong_network_env ''0xT'' ''0xR'' 1250 =
     (Inl NetworkMismatch, [Call_isNetworkMatch 43])
   \<and> crossSendErc20FromDvmToEth sample_env ''0xT'' ''0xR'' 1250 =
     (Inr (TxObject ''crossTransfer'' [''0xT'', ''0xR'', toString 1250]), [Call_isNetworkMatch 43])"
  using C6_network_gate [of wrong_network_env "''0xT''" "''0xR''" 1250]
    C6_network_gate [of sample_env "''0xT''" "''0xR''" 1250]
  by (simp add: wrong_network_env_def sample_env_def)

subsection \<open>The token catalogue\<close>

lemma getTokenInfo_address:
  "fst (getTokenInfo en x acct) = Inr tk \<Longrightarrow> address tk = x"
  by (auto simp add: getTokenInfo_def call_def bind_eff_def
      split: sum.splits prod.splits if_splits)

lemma getTokenInfo_trace:
  "set (snd (getTokenInfo en x acct)) \<subseteq> {Call_tokenInfoGetter x, Call_getTokenBalance x acct}"
  by (auto simp add: getTokenInfo_def call_def bind_eff_def
      split: sum.splits prod.splits if_splits)

lemma dvm_token_at_fulfilled:
  assumes "allTokens en i = Inr dvm" and "tokenToInfo en dvm = Inr (src, bck)"
    and "fst (getTokenInfo en src acct) = Inr tk"
  shows "dvm_token_at en acct i =
     (Inr \<lparr>address = address tk, symbol = symbol tk, decimals = decimals tk, name = name tk,
           logo = logo tk, balance = balance tk, source = src, backing = bck\<rparr>,
      Call_allTokens i # Call_tokenToInfo dvm # snd (getTokenInfo en src acct))"
proof -
  from assms(3) have "getTokenInfo en src acct = (Inr tk, snd (getTokenInfo en src acct))"
    by (cases "getTokenInfo en src acct") simp
  then have "bind_eff (getTokenInfo en src acct) f = (fst (f tk), snd (getTokenInfo en src acct) @ snd (f tk))" for f :: "Token \<Rightarrow> DvmToken eff"
    using bind_eff_Inr [of tk "snd (getTokenInfo en src acct)" f] by simp
  with assms(1,2) show ?thesis
    by (simp add: dvm_token_at_def call_def bind_eff_Inr)
qed

lemma promise_all_fulfilled:
  assumes "\<And>x. x \<in> set xs \<Longrightarrow> g x = (Inr (f x), h x)"
  shows "promise_all (map g xs) = (Inr (map f xs), map h xs)"
proof -
  from assms have "rejections (map g xs) = [] \<and> fulfilled (map g xs) = map f xs
      \<and> map snd (map g xs) = map h xs"
    by (induction xs) simp_all
  then show ?thesis by (simp add: promise_all_def)
qed

text \<open>
  \<^bold>\<open>Claim C8.\<close> When \<open>tokenLength()\<close> is \<open>n\<close> (a valid array length) and the lookups
  succeed, \<open>getAllTokensDvm\<close> runs \<open>n\<close> independent tasks, the task of index \<open>i\<close> making
  one \<open>allTokens(i)\<close> and one \<open>tokenToInfo\<close> call and then reading the metadata and
  balance of the resolved source address, and returns \<open>n\<close> records in index order, the
  \<open>i\<close>-th carrying the source and backing of index \<open>i\<close> with the source address's
  metadata. \<open>getAllTokens\<close> with an account and a network type other than \<open>eth\<close> is this
  function.
\<close>

theorem C8_getAllTokensDvm:
  assumes "tokenLength en = Inr n" and "n < 4294967296"
    and "\<forall>i<n. allTokens en i = Inr (dvm i) \<and> tokenToInfo en (dvm i) = Inr (src i, bck i)
            \<and> fst (getTokenInfo en (src i) acct) = Inr (tk i)"
  shows "getAllTokensDvm en acct =
     (Inr (map (\<lambda>i. \<lparr>address = src i, symbol = symbol (tk i), decimals = decimals (tk i),
                      name = name (tk i), logo = logo (tk i), balance = balance (tk i),
                      source = src i, backing = bck i\<rparr>) [0..<n]),
      [Call_tokenLength],
      map (\<lambda>i. Call_allTokens i # Call_tokenToInfo (dvm i) # snd (getTokenInfo en (src i) acct)) [0..<n])
   \<and> (\<forall>i<n. set (snd (getTokenInfo en (src i) acct))
                \<subseteq> {Call_tokenInfoGetter (src i), Call_getTokenBalance (src i) acct})
   \<and> (acct \<noteq> [] \<and> networkType \<noteq> ''eth'' \<longrightarrow>
        getAllTokens en acct networkType =
          (map_sum id DvmTokens (fst (getAllTokensDvm en acct)), snd (getAllTokensDvm en acct)))"
proof -
  have wrapper: "acct \<noteq> [] \<and> networkType \<noteq> ''eth'' \<longrightarrow>
        getAllTokens en acct networkType =
          (map_sum id DvmTokens (fst (getAllTokensDvm en acct)), snd (getAllTokensDvm en acct))"
    by (simp add: getAllTokens_def split: prod.splits)
  have "dvm_token_at en acct i =
     (Inr \<lparr>address = src i, symbol = symbol (tk i), decimals = decimals (tk i), name = name (tk i),
           logo = logo (tk i), balance = balance (tk i), source = src i, backing = bck i\<rparr>,
      Call_allTokens i # Call_tokenToInfo (dvm i) # snd (getTokenInfo en (src i) acct))"
    if "i \<in> set [0..<n]" for i
  proof -
    from that assms(3) have a: "allTokens en i = Inr (dvm i)"
      and b: "tokenToInfo en (dvm i) = Inr (src i, bck i)"
      and c: "fst (getTokenInfo en (src i) acct) = Inr (tk i)" by simp_all
    from c have "address (tk i) = src i" by (rule getTokenInfo_address)
    with dvm_token_at_fulfilled [OF a b c] show ?thesis by simp
  qed
  then have "promise_all (map (dvm_token_at en acct) [0..<n]) =
     (Inr (map (\<lambda>i. \<lparr>address = src i, symbol = symbol (tk i), decimals = decimals (tk i),
                      name = name (tk i), logo = logo (tk i), balance = balance (tk i),
                      source = src i, backing = bck i\<rparr>) [0..<n]),
      map (\<lambda>i. Call_allTokens i # Call_tokenToInfo (dvm i) # snd (getTokenInfo en (src i) acct)) [0..<n])"
    by (rule promise_all_fulfilled)
  with assms(1,2) getTokenInfo_trace wrapper show ?thesis
    by (simp add: getAllTokensDvm_def)
qed

theorem C8_witness:
  "getAllTokensDvm sample_env ''0xME'' =
     (Inr [\<lparr>address = ''0xS0'', symbol = ''0xS0'', decimals = 18, name = Some ''0xS0'', logo = None,
             balance = 7, source = ''0xS0'', backing = ''0xBK''\<rparr>,
           \<lparr>address = ''0xS1'', symbol = ''0xS1'', decimals = 18, name = Some ''0xS1'', logo = None,
             balance = 7, source = ''0xS1'', backing = ''0xBK''\<rparr>],
      [Call_tokenLength],
      [[Call_allTokens 0, Call_tokenToInfo ''0xD0'', Call_tokenInfoGetter ''0xS0'',
        Call_getTokenBalance ''0xS0'' ''0xME''],
       [Call_allTokens 1, Call_tokenToInfo ''0xD1'', Call_tokenInfoGetter ''0xS1'',
        Call_getTokenBalance ''0xS1'' ''0xME'']])
   \<and> getAllTokens sample_env ''0xME'' ''dvm'' =
       (map_sum id DvmTokens (fst (getAllTokensDvm sample_env ''0xME'')),
        snd (getAllTokensDvm sample_env ''0xME''))"
proof -
  let ?dvm = "\<lambda>i::nat. if i = 0 then ''0xD0'' else ''0xD1''"
  let ?src = "\<lambda>i::nat. if i = 0 then ''0xS0'' else ''0xS1''"
  let ?bck = "\<lambda>i::nat. ''0xBK''"
  let ?tk = "\<lambda>i::nat. \<lparr>address = ?src i, symbol = ?src i, decimals = 18, name = Some (?src i),
      logo = None, balance = 7\<rparr>"
  have g: "getTokenInfo sample_env x ''0xME'' =
      (Inr \<lparr>address = x, symbol = x, decimals = 18, name = Some x, logo = None, balance = 7\<rparr>,
       [Call_tokenInfoGetter x, Call_getTokenBalance x ''0xME''])" for x
    by (simp add: getTokenInfo_def sample_env_def call_def bind_eff_Inr)
  have 1: "tokenLength sample_env = Inr 2" by (simp add: sample_env_def)
  have 2: "(2::nat) < 4294967296" by simp
  have 3: "\<forall>i<2. allTokens sample_env i = Inr (?dvm i)
            \<and> tokenToInfo sample_env (?dvm i) = Inr (?src i, ?bck i)
            \<and> fst (getTokenInfo sample_env (?src i) ''0xME'') = Inr (?tk i)"
    by (simp add: g) (simp add: sample_env_def)
  have u: "[0..<2] = [0, Suc 0]" by (simp add: upt_rec)
  from C8_getAllTokensDvm [OF 1 2 3, of "''dvm''"] show ?thesis
    by (simp add: g u)
qed

end
